theory Spec2Isabelle
  imports Complex_Main
begin

section \<open>WGSL scalar and vector builtins\<close>

text \<open>
  The fragment shader of the renderer works on \<open>f32\<close> scalars and on \<open>vec2f\<close>/\<open>vec3f\<close>
  vectors.  The embedding idealises \<open>f32\<close> as \<^typ>\<open>real\<close>: rounding, infinities and NaN are
  not represented, and the total HOL operations stand in at the points where WGSL leaves
  the result to the implementation (\<open>x / 0 = 0\<close>, \<open>normalize\<close> of the null vector is the null
  vector).
\<close>

datatype vec2 = Vec2 (v2x: real) (v2y: real)

datatype vec3 = Vec3 (vx: real) (vy: real) (vz: real)

definition clampf :: "real \<Rightarrow> real \<Rightarrow> real \<Rightarrow> real" where
  "clampf e lo hi = min (max e lo) hi"

definition mixf :: "real \<Rightarrow> real \<Rightarrow> real \<Rightarrow> real" where
  "mixf a b t = a * (1 - t) + b * t"

definition smoothstep :: "real \<Rightarrow> real \<Rightarrow> real \<Rightarrow> real" where
  "smoothstep lo hi x =
     (let t = clampf ((x - lo) / (hi - lo)) 0 1 in t * t * (3 - 2 * t))"

definition fract :: "real \<Rightarrow> real" where
  "fract x = x - of_int \<lfloor>x\<rfloor>"

definition atan2 :: "real \<Rightarrow> real \<Rightarrow> real" where
  "atan2 y x =
     (if 0 < x then arctan (y / x)
      else if x < 0 then (if 0 \<le> y then arctan (y / x) + pi else arctan (y / x) - pi)
      else if 0 < y then pi / 2
      else if y < 0 then - (pi / 2)
      else 0)"

definition powf :: "real \<Rightarrow> real \<Rightarrow> real" where
  "powf b e = b powr e"

subsection \<open>Two-component vectors\<close>

definition add2 :: "vec2 \<Rightarrow> vec2 \<Rightarrow> vec2" where
  "add2 a b = Vec2 (v2x a + v2x b) (v2y a + v2y b)"

definition sub2 :: "vec2 \<Rightarrow> vec2 \<Rightarrow> vec2" where
  "sub2 a b = Vec2 (v2x a - v2x b) (v2y a - v2y b)"

definition mul2 :: "vec2 \<Rightarrow> vec2 \<Rightarrow> vec2" where
  "mul2 a b = Vec2 (v2x a * v2x b) (v2y a * v2y b)"

definition scale2 :: "vec2 \<Rightarrow> real \<Rightarrow> vec2" where
  "scale2 a k = Vec2 (v2x a * k) (v2y a * k)"

definition splat2 :: "real \<Rightarrow> vec2" where
  "splat2 k = Vec2 k k"

definition dot2 :: "vec2 \<Rightarrow> vec2 \<Rightarrow> real" where
  "dot2 a b = v2x a * v2x b + v2y a * v2y b"

definition floor2 :: "vec2 \<Rightarrow> vec2" where
  "floor2 a = Vec2 (of_int \<lfloor>v2x a\<rfloor>) (of_int \<lfloor>v2y a\<rfloor>)"

definition fract2 :: "vec2 \<Rightarrow> vec2" where
  "fract2 a = Vec2 (fract (v2x a)) (fract (v2y a))"

subsection \<open>Three-component vectors\<close>

definition add3 :: "vec3 \<Rightarrow> vec3 \<Rightarrow> vec3" where
  "add3 a b = Vec3 (vx a + vx b) (vy a + vy b) (vz a + vz b)"

definition sub3 :: "vec3 \<Rightarrow> vec3 \<Rightarrow> vec3" where
  "sub3 a b = Vec3 (vx a - vx b) (vy a - vy b) (vz a - vz b)"

definition mul3 :: "vec3 \<Rightarrow> vec3 \<Rightarrow> vec3" where
  "mul3 a b = Vec3 (vx a * vx b) (vy a * vy b) (vz a * vz b)"

definition div3 :: "vec3 \<Rightarrow> vec3 \<Rightarrow> vec3" where
  "div3 a b = Vec3 (vx a / vx b) (vy a / vy b) (vz a / vz b)"

definition scale3 :: "vec3 \<Rightarrow> real \<Rightarrow> vec3" where
  "scale3 a k = Vec3 (vx a * k) (vy a * k) (vz a * k)"

definition divs3 :: "vec3 \<Rightarrow> real \<Rightarrow> vec3" where
  "divs3 a k = Vec3 (vx a / k) (vy a / k) (vz a / k)"

definition splat3 :: "real \<Rightarrow> vec3" where
  "splat3 k = Vec3 k k k"

definition neg3 :: "vec3 \<Rightarrow> vec3" where
  "neg3 a = Vec3 (- vx a) (- vy a) (- vz a)"

definition dot3 :: "vec3 \<Rightarrow> vec3 \<Rightarrow> real" where
  "dot3 a b = vx a * vx b + vy a * vy b + vz a * vz b"

definition cross3 :: "vec3 \<Rightarrow> vec3 \<Rightarrow> vec3" where
  "cross3 a b = Vec3 (vy a * vz b - vz a * vy b)
                     (vz a * vx b - vx a * vz b)
                     (vx a * vy b - vy a * vx b)"

definition length3 :: "vec3 \<Rightarrow> real" where
  "length3 a = sqrt (dot3 a a)"

definition normalize3 :: "vec3 \<Rightarrow> vec3" where
  "normalize3 a = Vec3 (vx a / length3 a) (vy a / length3 a) (vz a / length3 a)"

definition mix3 :: "vec3 \<Rightarrow> vec3 \<Rightarrow> real \<Rightarrow> vec3" where
  "mix3 a b t = Vec3 (mixf (vx a) (vx b) t) (mixf (vy a) (vy b) t) (mixf (vz a) (vz b) t)"

definition pow3 :: "vec3 \<Rightarrow> vec3 \<Rightarrow> vec3" where
  "pow3 a e = Vec3 (powf (vx a) (vx e)) (powf (vy a) (vy e)) (powf (vz a) (vz e))"

section \<open>Uniforms and derived physics parameters\<close>

record uniforms =
  time :: real
  spin :: real
  disk_intensity :: real
  lensing_enabled :: real
  resolution :: vec2
  camera_pos :: vec3
  camera_dir :: vec3
  camera_up :: vec3

definition RS :: real where
  "RS = 2"

definition M :: real where
  "M = 1"

definition spin_a :: "uniforms \<Rightarrow> real" where
  "spin_a P = clampf (spin P) 0 0.99"

definition horizon_r :: "real \<Rightarrow> real" where
  "horizon_r a = 1 + sqrt (1 - a * a)"

definition isco :: "real \<Rightarrow> real" where
  "isco a = 3 + sqrt (3 * (3 - 2 * a))"

definition accretion_min :: "real \<Rightarrow> real" where
  "accretion_min a = isco a * 0.9"

definition accretion_max :: real where
  "accretion_max = 12"


section \<open>Noise functions\<close>

definition hash :: "vec2 \<Rightarrow> real" where
  "hash p = fract (sin (dot2 p (Vec2 12.9898 78.233)) * 43758.5453)"

definition noise :: "vec2 \<Rightarrow> real" where
  "noise x =
     (let i = floor2 x;
          f = fract2 x;
          u = mul2 (mul2 f f) (sub2 (splat2 3) (scale2 f 2))
      in mixf (mixf (hash (add2 i (Vec2 0 0))) (hash (add2 i (Vec2 1 0))) (v2x u))
              (mixf (hash (add2 i (Vec2 0 1))) (hash (add2 i (Vec2 1 1))) (v2x u))
              (v2y u))"

text \<open>\<open>rot * pp\<close> for the column-major matrix \<open>mat2x2f(cos 0.5, sin 0.5, -sin 0.5, cos 0.5)\<close>.\<close>

definition rot_apply :: "vec2 \<Rightarrow> vec2" where
  "rot_apply pp = Vec2 (cos 0.5 * v2x pp + (- sin 0.5) * v2y pp)
                       (sin 0.5 * v2x pp + cos 0.5 * v2y pp)"

text \<open>The \<open>for\<close> loop of \<open>fbm\<close>; the first argument counts the iterations still to run.\<close>

fun fbm_loop :: "nat \<Rightarrow> real \<Rightarrow> real \<Rightarrow> vec2 \<Rightarrow> real" where
  "fbm_loop 0 v a pp = v"
| "fbm_loop (Suc n) v a pp =
     fbm_loop n (v + a * noise pp) (a * 0.5) (add2 (scale2 (rot_apply pp) 2) (splat2 100))"

definition fbm :: "vec2 \<Rightarrow> real" where
  "fbm p = fbm_loop 5 0 0.5 p"

section \<open>Physics helpers\<close>

definition blackbody :: "real \<Rightarrow> vec3" where
  "blackbody temp =
     (let t = clampf temp 0 1
      in Vec3 (min (t * 3) 1 + max 0 (t - 0.5))
              (min (t * 1.5) 1 * smoothstep 0.1 0.5 t)
              (min (t * 0.5) 1 * smoothstep 0.4 0.8 t + max 0 (t - 0.9)))"

section \<open>Ray state and the volumetric disk\<close>

record ray =
  pos :: vec3
  vel :: vec3
  color :: vec3
  transmittance :: real
  step_dist :: real

definition disk_h :: "real \<Rightarrow> real" where
  "disk_h r = 0.05 + 0.01 * r * r * 0.1"

text \<open>The guard of the disk branch of the marching loop.\<close>

definition in_disk :: "uniforms \<Rightarrow> ray \<Rightarrow> bool" where
  "in_disk P s =
     (let r = sqrt (dot3 (pos s) (pos s));
          dist_to_plane = \<bar>vy (pos s)\<bar>
      in transmittance s > 0.01 \<and> r > accretion_min (spin_a P) \<and> r < accretion_max
         \<and> dist_to_plane < disk_h r)"

definition omega_space :: "real \<Rightarrow> vec3 \<Rightarrow> real" where
  "omega_space a p =
     (let r2 = dot3 p p; r = sqrt r2 in 2 * a * r / powf (r2 + a * a) 2)"

definition omega_kepler :: "real \<Rightarrow> vec3 \<Rightarrow> real" where
  "omega_kepler a p = (let r = sqrt (dot3 p p) in 1 / (powf r 1.5 + a))"

definition omega_gas :: "real \<Rightarrow> vec3 \<Rightarrow> real" where
  "omega_gas a p =
     (let w_space = omega_space a p;
          w_kepler = omega_kepler a p
      in w_kepler)"

definition vel_gas :: "real \<Rightarrow> vec3 \<Rightarrow> vec3" where
  "vel_gas a p = scale3 (Vec3 (- vz p) 0 (vx p)) (omega_gas a p)"

definition doppler :: "real \<Rightarrow> real \<Rightarrow> real" where
  "doppler beta_sq cos_theta =
     (let gamma = 1 / sqrt (1 - beta_sq);
          beta = sqrt beta_sq
      in 1 / (gamma * (1 - beta * cos_theta)))"

definition beta_sq :: "uniforms \<Rightarrow> ray \<Rightarrow> real" where
  "beta_sq P s = (let beta_vec = vel_gas (spin_a P) (pos s) in dot3 beta_vec beta_vec)"

definition shift :: "uniforms \<Rightarrow> ray \<Rightarrow> real" where
  "shift P s =
     (let r = sqrt (dot3 (pos s) (pos s));
          view_dir = neg3 (normalize3 (vel s));
          beta_vec = vel_gas (spin_a P) (pos s);
          cos_theta = dot3 (normalize3 beta_vec) view_dir;
          grav_redshift = sqrt (max 0.01 (1 - 2 / r))
      in doppler (dot3 beta_vec beta_vec) cos_theta * grav_redshift)"

definition density :: "uniforms \<Rightarrow> ray \<Rightarrow> real" where
  "density P s =
     (let r = sqrt (dot3 (pos s) (pos s));
          dist_to_plane = \<bar>vy (pos s)\<bar>;
          a_min = accretion_min (spin_a P);
          angle = atan2 (vz (pos s)) (vx (pos s));
          rot_angle = angle - time P * omega_gas (spin_a P) (pos s) * 10;
          uv_disk = Vec2 (r * 2) rot_angle;
          noise_base = fbm (scale2 uv_disk 2);
          noise_detail = fbm (add2 (scale2 uv_disk 6) (Vec2 (time P) 0));
          vertical_fade = smoothstep (disk_h r) 0 dist_to_plane;
          radial_fade = smoothstep a_min (a_min + 1) r
                        * smoothstep accretion_max (accretion_max - 2) r
      in (noise_base * 0.7 + noise_detail * 0.3) * vertical_fade * radial_fade)"

definition emission :: "uniforms \<Rightarrow> ray \<Rightarrow> vec3" where
  "emission P s =
     (let r = sqrt (dot3 (pos s) (pos s));
          temp_profile = powf (accretion_min (spin_a P) / r) 1.5;
          intensity = density P s * temp_profile * powf (shift P s) 4 * disk_intensity P;
          shifted_temp = temp_profile * shift P s
      in scale3 (scale3 (blackbody shifted_temp) intensity) 2)"

definition alpha :: "uniforms \<Rightarrow> ray \<Rightarrow> real" where
  "alpha P s =
     (let segment_len = max 0.01 (step_dist s)
      in 1 - exp (- density P s * segment_len * 2))"

text \<open>The body of the disk branch: the two nested guards and the compositing update.\<close>

definition disk_shader :: "uniforms \<Rightarrow> ray \<Rightarrow> ray" where
  "disk_shader P s =
     (if beta_sq P s < 0.99 then
        (if density P s > 0.05 then
           s\<lparr>color := add3 (color s)
                          (scale3 (scale3 (emission P s) (alpha P s)) (transmittance s)),
             transmittance := transmittance s * (1 - alpha P s)\<rparr>
         else s)
      else s)"

section \<open>The ray marching loop\<close>

text \<open>The three \<open>break\<close> statements of the loop, and the exhaustion of \<open>max_steps\<close>.\<close>

datatype stop = Absorbed | Opaque | Escaped | StepLimit

definition acc_schwarzschild :: "ray \<Rightarrow> vec3" where
  "acc_schwarzschild s =
     (let r = sqrt (dot3 (pos s) (pos s));
          rv_dot = dot3 (pos s) (vel s)
      in scale3 (pos s) (- 1.5 * RS * (rv_dot * rv_dot) / powf r 5))"

definition acc_spin :: "uniforms \<Rightarrow> ray \<Rightarrow> vec3" where
  "acc_spin P s =
     (if spin P > 0.01 then
        (let r2 = dot3 (pos s) (pos s);
             r = sqrt r2;
             J = scale3 (scale3 (Vec3 0 1 0) (spin P)) M;
             rxJ = cross3 (pos s) J;
             curl_field = divs3 (sub3 (scale3 (pos s) (3 * dot3 (pos s) J)) (scale3 J r2))
                                (powf r 5)
         in scale3 (cross3 (vel s) curl_field) 2)
      else splat3 0)"

definition geodesic_step :: "uniforms \<Rightarrow> ray \<Rightarrow> ray" where
  "geodesic_step P s =
     (let r = sqrt (dot3 (pos s) (pos s));
          h = clampf (0.05 * (r - horizon_r (spin_a P))) 0.02 0.5;
          acc_total = add3 (acc_schwarzschild s) (acc_spin P s);
          vel' = (if lensing_enabled P > 0.5
                  then normalize3 (add3 (vel s) (scale3 acc_total h))
                  else vel s)
      in s\<lparr>step_dist := h, vel := vel', pos := add3 (pos s) (scale3 vel' h)\<rparr>)"

text \<open>One iteration of the loop body; \<open>Some\<close> marks the \<open>break\<close> that was taken.\<close>

definition march_step :: "uniforms \<Rightarrow> ray \<Rightarrow> stop option \<times> ray" where
  "march_step P s =
     (let r = sqrt (dot3 (pos s) (pos s)) in
      if r < horizon_r (spin_a P) then
        (Some Absorbed,
         s\<lparr>color := add3 (color s) (scale3 (splat3 0) (transmittance s)),
           transmittance := 0\<rparr>)
      else
        (let s1 = (if in_disk P s then disk_shader P s else s) in
         if transmittance s1 < 0.01 then (Some Opaque, s1)
         else
           (let s2 = geodesic_step P s1 in
            if r > 30 then (Some Escaped, s2) else (None, s2))))"

fun march :: "uniforms \<Rightarrow> nat \<Rightarrow> ray \<Rightarrow> stop \<times> ray" where
  "march P 0 s = (StepLimit, s)"
| "march P (Suc n) s =
     (case march_step P s of
        (Some why, s') \<Rightarrow> (why, s')
      | (None, s') \<Rightarrow> march P n s')"

text \<open>The ray state after \<open>k\<close> iterations; it no longer changes once a \<open>break\<close> was taken.\<close>

fun state_after :: "uniforms \<Rightarrow> nat \<Rightarrow> ray \<Rightarrow> ray" where
  "state_after P 0 s = s"
| "state_after P (Suc k) s =
     (case march_step P s of
        (Some why, s') \<Rightarrow> s'
      | (None, s') \<Rightarrow> state_after P k s')"

definition max_steps :: nat where
  "max_steps = 120"

section \<open>Camera, background and tone mapping\<close>

definition camera_ray :: "uniforms \<Rightarrow> vec2 \<Rightarrow> ray" where
  "camera_ray P uv =
     (let aspect = v2x (resolution P) / v2y (resolution P);
          ndc = scale2 (sub2 uv (splat2 0.5)) 2;
          screen_uv = Vec2 (v2x ndc * aspect) (- v2y ndc);
          cam_pos = camera_pos P;
          cam_dir = normalize3 (camera_dir P);
          world_up = Vec3 0 1 0;
          right = normalize3 (cross3 cam_dir world_up);
          up = cross3 right cam_dir;
          ro = cam_pos;
          rd = normalize3 (add3 (add3 (scale3 cam_dir 1.5) (scale3 right (v2x screen_uv)))
                                (scale3 up (v2y screen_uv)))
      in \<lparr>pos = ro, vel = rd, color = splat3 0, transmittance = 1, step_dist = 0\<rparr>)"

definition background :: "uniforms \<Rightarrow> vec3 \<Rightarrow> vec3" where
  "background P v_final =
     (let sky_dir = normalize3 v_final;
          u = atan2 (vz sky_dir) (vx sky_dir);
          v = vy sky_dir;
          uv_sky = Vec2 u v;
          star_layer1 = powf (max 0 (noise (scale2 uv_sky 150))) 40 * 1.5;
          star_layer2 = powf (max 0 (noise (add2 (scale2 uv_sky 60) (splat2 5)))) 50 * 2;
          stars = star_layer1 + star_layer2;
          warp = fbm (add2 (scale2 uv_sky 3) (Vec2 0 (time P * 0.01)));
          galactic_plane_dist = \<bar>v + warp * 0.1\<bar>;
          galaxy_density = 1 / (1 + galactic_plane_dist * 8);
          neb_noise = fbm (add2 (mul2 uv_sky (Vec2 5 2)) (splat2 warp));
          neb_detail = fbm (sub2 (mul2 uv_sky (Vec2 10 5)) (splat2 (time P * 0.02)));
          deep_purple = Vec3 0.1 0 0.2;
          cosmic_blue = Vec3 0.1 0.2 0.5;
          core_glow = Vec3 1 0.8 0.6;
          galaxy_col0 = mix3 deep_purple cosmic_blue neb_noise;
          galaxy_col1 = mix3 galaxy_col0 core_glow (galaxy_density * neb_detail * galaxy_density);
          dust = fbm (add2 (scale2 uv_sky 12) (splat2 100));
          dust_mask = smoothstep 0.4 0.7 dust;
          galaxy_col = scale3 galaxy_col1 (1 - dust_mask * 0.8 * galaxy_density);
          galaxy_final = scale3 (scale3 galaxy_col galaxy_density) 2
      in add3 (splat3 stars) galaxy_final)"

text \<open>The accumulators after the loop and the background stage.\<close>

definition shade :: "uniforms \<Rightarrow> vec2 \<Rightarrow> ray" where
  "shade P uv =
     (let s = snd (march P max_steps (camera_ray P uv))
      in if transmittance s > 0
         then s\<lparr>color := add3 (color s) (scale3 (background P (vel s)) (transmittance s))\<rparr>
         else s)"

text \<open>The Uncharted 2 curve, applied to one channel.\<close>

definition filmic :: "real \<Rightarrow> real" where
  "filmic x =
     (let A = 0.15; B = 0.50; C = 0.10; D = 0.20; E = 0.02; F = 0.30
      in ((x * (A * x + C * B) + D * E) / (x * (A * x + B) + D * F)) - E / F)"

definition tone_map :: "vec3 \<Rightarrow> vec3" where
  "tone_map c =
     (let exposed = scale3 c 1.5;
          W = 11.2;
          tonemapped = Vec3 (filmic (vx exposed)) (filmic (vy exposed)) (filmic (vz exposed));
          white = Vec3 (filmic W) (filmic W) (filmic W);
          tonemapped' = div3 tonemapped white
      in pow3 tonemapped' (splat3 (1 / 2.2)))"

text \<open>The fragment shader: the RGB part of its result (alpha is the constant 1).\<close>

definition fs_main :: "uniforms \<Rightarrow> vec2 \<Rightarrow> vec3" where
  "fs_main P uv = tone_map (color (shade P uv))"

section \<open>Auxiliary notions for the accumulators\<close>

text \<open>Componentwise order on colours.\<close>

definition vec3_le :: "vec3 \<Rightarrow> vec3 \<Rightarrow> bool" where
  "vec3_le a b = (vx a \<le> vx b \<and> vy a \<le> vy b \<and> vz a \<le> vz b)"

text \<open>
  The opacity composited by one iteration: \<^const>\<open>alpha\<close> when the three guards around the
  compositing update of the source hold (the disk guard, \<open>beta_sq < 0.99\<close> and
  \<open>density > 0.05\<close>), and 0 when the update is skipped.
\<close>

definition alpha_eff :: "uniforms \<Rightarrow> ray \<Rightarrow> real" where
  "alpha_eff P s = (if in_disk P s \<and> beta_sq P s < 0.99 \<and> density P s > 0.05 then alpha P s else 0)"

section \<open>The disk trigger as the specification words it\<close>

text \<open>
  The specification gives the trigger of the disk shader with closed radial bounds,
  \<open>accretionMin \<le> r \<le> accretionMax\<close>, and the half thickness \<open>0.05 + 0.001 r\<^sup>2\<close>.  This
  predicate follows those words; \<^const>\<open>in_disk\<close> above is the guard of the source.
\<close>

definition disk_trigger_spec :: "uniforms \<Rightarrow> ray \<Rightarrow> bool" where
  "disk_trigger_spec P s =
     (transmittance s > 0.01
      \<and> 0.9 * isco (spin_a P) \<le> length3 (pos s) \<and> length3 (pos s) \<le> 12
      \<and> \<bar>vy (pos s)\<bar> < 0.05 + 0.001 * (length3 (pos s))\<^sup>2)"

text \<open>Sample inputs used to exercise the definitions.\<close>

definition frame0 :: uniforms where
  "frame0 = \<lparr>time = 0, spin = 0, disk_intensity = 1, lensing_enabled = 1,
             resolution = Vec2 800 600, camera_pos = Vec3 0 0 0,
             camera_dir = Vec3 0 0 (- 1), camera_up = Vec3 0 1 0\<rparr>"

definition ray_at :: "vec3 \<Rightarrow> vec3 \<Rightarrow> ray" where
  "ray_at p v = \<lparr>pos = p, vel = v, color = splat3 0, transmittance = 1, step_dist = 0\<rparr>"

text \<open>A camera at \<open>r = 25\<close> looking directly away from the origin, lensing disabled.\<close>

definition frame_flat :: uniforms where
  "frame_flat = \<lparr>time = 0, spin = 0.9, disk_intensity = 1, lensing_enabled = 0,
                 resolution = Vec2 800 600, camera_pos = Vec3 25 0 0,
                 camera_dir = Vec3 1 0 0, camera_up = Vec3 0 1 0\<rparr>"

text \<open>
  A camera at \<open>r = 40\<close> looking along the \<open>z\<close> axis, lensing enabled, with the spin slider
  at its maximum 1.0.
\<close>

definition frame_spin1 :: uniforms where
  "frame_spin1 = \<lparr>time = 0, spin = 1, disk_intensity = 1, lensing_enabled = 1,
                  resolution = Vec2 800 600, camera_pos = Vec3 40 0 0,
                  camera_dir = Vec3 0 0 1, camera_up = Vec3 0 1 0\<rparr>"

text \<open>
  A camera on the equator at the largest zoom distance of the application, \<open>r = 20\<close>,
  looking at the origin, lensing enabled, spin slider at its maximum 1.0.
\<close>

definition frame_orbit :: uniforms where
  "frame_orbit = \<lparr>time = 0, spin = 1, disk_intensity = 1, lensing_enabled = 1,
                  resolution = Vec2 800 600, camera_pos = Vec3 20 0 0,
                  camera_dir = Vec3 (- 1) 0 0, camera_up = Vec3 0 1 0\<rparr>"

section \<open>Derived parameters\<close>

lemma sqrt_le_one: "sqrt (1 - a * a) \<le> 1"
proof -
  have "1 - a * a \<le> 1" by simp
  then have "sqrt (1 - a * a) \<le> sqrt 1" by (rule real_sqrt_le_mono)
  then show ?thesis by simp
qed

lemma horizon_r_le_2: "horizon_r a \<le> 2"
  using sqrt_le_one [of a] by (simp add: horizon_r_def)

lemma spin_a_range: "0 \<le> spin_a P \<and> spin_a P \<le> 0.99"
  by (simp add: spin_a_def clampf_def)

text \<open>
  C6: the event horizon radius is \<open>1 + sqrt (1 - a\<^sup>2)\<close>, strictly decreasing in the spin over
  \<open>[0, 0.99]\<close>; it is exactly 2 at spin 0, and at spin 0.9 it is \<open>1 + sqrt (1 - 0.81)\<close>, within
  0.001 of 1.436 and strictly below the value at spin 0.
\<close>

theorem horizon_r_strictly_decreasing:
  "(0 \<le> a \<and> a < b \<and> b \<le> 0.99 \<longrightarrow> horizon_r b < horizon_r a)
   \<and> horizon_r a = 1 + sqrt (1 - a\<^sup>2)
   \<and> horizon_r 0 = 2
   \<and> horizon_r 0.9 = 1 + sqrt (1 - 0.81)
   \<and> \<bar>horizon_r 0.9 - 1.436\<bar> < 0.001
   \<and> horizon_r 0.9 < horizon_r 0"
proof -
  have mono: "horizon_r b < horizon_r a" if "0 \<le> a" "a < b" for a b :: real
  proof -
    have "a * a < b * b" using that by (simp add: mult_strict_mono')
    then have "1 - b * b < 1 - a * a" by simp
    then have "sqrt (1 - b * b) < sqrt (1 - a * a)" by (rule real_sqrt_less_mono)
    then show ?thesis by (simp add: horizon_r_def)
  qed
  have form: "horizon_r a = 1 + sqrt (1 - a\<^sup>2)"
    by (simp add: horizon_r_def power2_eq_square)
  have zero: "horizon_r 0 = 2" by (simp add: horizon_r_def)
  have val: "horizon_r 0.9 = 1 + sqrt (1 - 0.81)"
    by (simp add: horizon_r_def)
  have lo: "0.4358 < sqrt (0.19 :: real)"
    by (rule real_less_rsqrt) (simp add: power2_eq_square)
  have hi: "sqrt (0.19 :: real) < 0.436"
    by (rule real_less_lsqrt) (simp_all add: power2_eq_square)
  have h09: "horizon_r 0.9 = 1 + sqrt 0.19" by (simp add: horizon_r_def)
  have approx: "\<bar>horizon_r 0.9 - 1.436\<bar> < 0.001" using lo hi unfolding h09 by simp
  have less: "horizon_r 0.9 < horizon_r 0" using hi unfolding h09 zero by simp
  show ?thesis using mono [of a b] form zero val approx less by blast
qed

theorem horizon_r_strictly_decreasing_witness:
  "(0::real) \<le> 0.5 \<and> (0.5::real) < 0.9 \<and> (0.9::real) \<le> 0.99 \<and> horizon_r 0.9 < horizon_r 0.5"
proof -
  have h: "(0::real) \<le> 0.5 \<and> (0.5::real) < 0.9 \<and> (0.9::real) \<le> 0.99" by simp
  with horizon_r_strictly_decreasing [of "0.5" "0.9"] show ?thesis by blast
qed

text \<open>
  C9: for a gas speed with \<open>0 < \<beta>\<^sup>2 < 0.99\<close> the Doppler factor \<open>1 / (\<gamma> (1 - \<beta> cos \<theta>))\<close> computed by
  the disk shader exceeds 1 for gas moving directly toward the observer (\<open>cos \<theta> = 1\<close>) and is
  below 1 for gas moving directly away (\<open>cos \<theta> = -1\<close>).
\<close>

theorem doppler_toward_away:
  assumes "0 < b2" "b2 < 0.99"
  shows "doppler b2 1 > 1 \<and> doppler b2 (- 1) < 1"
proof -
  define b where "b = sqrt b2"
  have b_pos: "0 < b" using assms by (simp add: b_def)
  have b2_eq: "b2 = b * b" using assms by (simp add: b_def)
  have b_lt1: "b < 1"
  proof -
    have "sqrt b2 < sqrt 1" using assms by (intro real_sqrt_less_mono) simp
    then show ?thesis by (simp add: b_def)
  qed
  define g where "g = sqrt (1 - b2)"
  have g_pos: "0 < g" using assms by (simp add: g_def)
  have g_sq: "g * g = (1 - b) * (1 + b)"
    using assms by (simp add: g_def b2_eq algebra_simps)
  have d1: "doppler b2 1 = g / (1 - b)"
    by (simp add: doppler_def Let_def b_def g_def)
  have d2: "doppler b2 (- 1) = g / (1 + b)"
    by (simp add: doppler_def Let_def b_def g_def)
  have "1 - b < g"
  proof (rule ccontr)
    assume "\<not> 1 - b < g"
    then have "g \<le> 1 - b" by simp
    then have "g * g \<le> (1 - b) * (1 - b)" using g_pos by (intro mult_mono) simp_all
    then have "(1 - b) * (1 + b) \<le> (1 - b) * (1 - b)" using g_sq by simp
    then have "1 + b \<le> 1 - b" using b_lt1 by simp
    then show False using b_pos by simp
  qed
  then have toward: "1 < g / (1 - b)" using b_lt1 by (simp add: field_simps)
  have "g < 1 + b"
  proof (rule ccontr)
    assume "\<not> g < 1 + b"
    then have "1 + b \<le> g" by simp
    then have "(1 + b) * (1 + b) \<le> g * g" using b_pos by (intro mult_mono) simp_all
    then have "(1 + b) * (1 + b) \<le> (1 - b) * (1 + b)" using g_sq by simp
    then have "1 + b \<le> 1 - b" using b_pos by simp
    then show False using b_pos by simp
  qed
  then have away: "g / (1 + b) < 1" using b_pos by (simp add: field_simps)
  show ?thesis using toward away d1 d2 by simp
qed

theorem doppler_toward_away_witness:
  "(0::real) < 0.25 \<and> (0.25::real) < 0.99 \<and> doppler 0.25 1 > 1 \<and> doppler 0.25 (- 1) < 1"
  using doppler_toward_away [of "0.25"] by simp

lemma sqrt_sq_eq: "0 \<le> c \<Longrightarrow> x = c * c \<Longrightarrow> sqrt x = c"
  by (simp add: real_sqrt_mult)

lemma isco_ge_3: "a \<le> 0.99 \<Longrightarrow> 3 \<le> isco a"
  by (simp add: isco_def)

lemma accretion_min_gt_horizon: "horizon_r (spin_a P) < accretion_min (spin_a P)"
proof -
  have "3 \<le> isco (spin_a P)" using spin_a_range [of P] by (intro isco_ge_3) simp
  then have "2.7 \<le> accretion_min (spin_a P)" by (simp add: accretion_min_def)
  then show ?thesis using horizon_r_le_2 [of "spin_a P"] by simp
qed

section \<open>The volumetric disk\<close>

text \<open>
  C7: the gas velocity of a disk sample is \<open>\<omega> \<cdot> (-z, 0, x)\<close> with the Keplerian angular velocity
  \<open>\<omega> = 1 / (r powr 1.5 + a)\<close>, where \<open>a\<close> is the (clamped) spin the shader works with.  The
  frame-dragging angular velocity \<^const>\<open>omega_space\<close> is computed and dropped: the angular
  velocity of the gas is the Keplerian one, so the squared gas speed is
  \<open>(x\<^sup>2 + z\<^sup>2) / (r powr 1.5 + a)\<^sup>2\<close>.
\<close>

theorem vel_gas_keplerian:
  "vel_gas (spin_a P) p
     = scale3 (Vec3 (- vz p) 0 (vx p)) (1 / (length3 p powr 1.5 + spin_a P))
   \<and> omega_gas (spin_a P) p = omega_kepler (spin_a P) p
   \<and> beta_sq P s
     = ((vz (pos s))\<^sup>2 + (vx (pos s))\<^sup>2) / (length3 (pos s) powr 1.5 + spin_a P)\<^sup>2"
  by (simp add: vel_gas_def omega_gas_def omega_kepler_def beta_sq_def Let_def length3_def
      powf_def scale3_def dot3_def power2_eq_square add_divide_distrib)

text \<open>
  The trigger of the specification (C4 as stated, closed radial bounds) holds on the outer
  rim \<open>r = 12\<close>, where the guard of the source is false.
\<close>

theorem disk_trigger_spec_counterexample:
  "disk_trigger_spec frame0 (ray_at (Vec3 12 0 0) (Vec3 0 0 1))
   \<and> \<not> in_disk frame0 (ray_at (Vec3 12 0 0) (Vec3 0 0 1))"
proof -
  have r: "sqrt (144::real) = 12" by (rule sqrt_sq_eq) simp_all
  have i: "sqrt (9::real) = 3" by (rule sqrt_sq_eq) simp_all
  show ?thesis
    by (simp add: disk_trigger_spec_def in_disk_def frame0_def ray_at_def length3_def dot3_def
        spin_a_def clampf_def isco_def accretion_max_def r i)
qed

text \<open>
  C4, amended: the disk shader runs in a step if and only if the transmittance exceeds 0.01,
  \<open>0.9 \<cdot> ISCO < r < 12\<close> with both bounds strict, and \<open>|y| < 0.05 + 0.001 r\<^sup>2\<close>; in a step that is
  not absorbed the accumulators after the step are those of the disk shader when the guard
  holds and the old ones otherwise.
\<close>

theorem in_disk_strict_bounds:
  "in_disk P s
     = (transmittance s > 0.01
        \<and> 0.9 * isco (spin_a P) < length3 (pos s) \<and> length3 (pos s) < 12
        \<and> \<bar>vy (pos s)\<bar> < 0.05 + 0.001 * (length3 (pos s))\<^sup>2)
   \<and> (horizon_r (spin_a P) \<le> length3 (pos s) \<longrightarrow>
        color (snd (march_step P s)) = color (if in_disk P s then disk_shader P s else s)
        \<and> transmittance (snd (march_step P s))
          = transmittance (if in_disk P s then disk_shader P s else s))"
proof -
  have a: "in_disk P s
     = (transmittance s > 0.01
        \<and> 0.9 * isco (spin_a P) < length3 (pos s) \<and> length3 (pos s) < 12
        \<and> \<bar>vy (pos s)\<bar> < 0.05 + 0.001 * (length3 (pos s))\<^sup>2)"
    by (simp add: in_disk_def Let_def length3_def accretion_min_def accretion_max_def
        disk_h_def power2_eq_square mult.commute)
  have b: "color (snd (march_step P s)) = color (if in_disk P s then disk_shader P s else s)
        \<and> transmittance (snd (march_step P s))
          = transmittance (if in_disk P s then disk_shader P s else s)"
    if "horizon_r (spin_a P) \<le> length3 (pos s)"
    using that by (simp add: march_step_def Let_def length3_def geodesic_step_def)
  show ?thesis using a b by blast
qed

theorem in_disk_strict_bounds_witness:
  "horizon_r (spin_a frame0) \<le> length3 (pos (ray_at (Vec3 11 0 0) (Vec3 0 0 1)))
   \<and> in_disk frame0 (ray_at (Vec3 11 0 0) (Vec3 0 0 1))
   \<and> color (snd (march_step frame0 (ray_at (Vec3 11 0 0) (Vec3 0 0 1))))
     = color (disk_shader frame0 (ray_at (Vec3 11 0 0) (Vec3 0 0 1)))"
proof -
  have r: "sqrt (121::real) = 11" by (rule sqrt_sq_eq) simp_all
  have i: "sqrt (9::real) = 3" by (rule sqrt_sq_eq) simp_all
  have len: "length3 (pos (ray_at (Vec3 11 0 0) (Vec3 0 0 1))) = 11"
    by (simp add: ray_at_def length3_def dot3_def r)
  have h: "horizon_r (spin_a frame0) \<le> length3 (pos (ray_at (Vec3 11 0 0) (Vec3 0 0 1)))"
    using horizon_r_le_2 [of "spin_a frame0"] by (simp add: len)
  have d: "in_disk frame0 (ray_at (Vec3 11 0 0) (Vec3 0 0 1))"
    using in_disk_strict_bounds [of frame0 "ray_at (Vec3 11 0 0) (Vec3 0 0 1)"]
    by (simp add: len) (simp add: ray_at_def frame0_def spin_a_def clampf_def isco_def i)
  show ?thesis
    using h d in_disk_strict_bounds [of frame0 "ray_at (Vec3 11 0 0) (Vec3 0 0 1)"] by simp
qed

lemma max_steps_Suc: "max_steps = Suc 119"
  by (simp add: max_steps_def)

lemma march_first:
  "march P max_steps s
     = (case march_step P s of (Some why, s') \<Rightarrow> (why, s') | (None, s') \<Rightarrow> march P 119 s')"
  unfolding max_steps_Suc by (rule march.simps)

lemma filmic_zero: "filmic 0 = 0"
  by (simp add: filmic_def)

lemma tone_map_black: "tone_map (Vec3 0 0 0) = Vec3 0 0 0"
  by (simp add: tone_map_def Let_def scale3_def filmic_zero div3_def pow3_def powf_def splat3_def)

section \<open>Absorption at the horizon\<close>

text \<open>
  C2: a ray whose starting position lies inside the horizon takes the absorbing \<open>break\<close> in
  the first iteration; the loop ends with colour \<open>(0, 0, 0)\<close> and transmittance 0, the
  background stage adds nothing, and the pixel is black.
\<close>

theorem absorbed_at_start:
  assumes "length3 (camera_pos P) < horizon_r (spin_a P)"
  shows "fst (march_step P (camera_ray P uv)) = Some Absorbed
         \<and> fst (march P max_steps (camera_ray P uv)) = Absorbed
         \<and> color (snd (march P max_steps (camera_ray P uv))) = Vec3 0 0 0
         \<and> transmittance (snd (march P max_steps (camera_ray P uv))) = 0
         \<and> color (shade P uv) = Vec3 0 0 0
         \<and> transmittance (shade P uv) = 0
         \<and> fs_main P uv = Vec3 0 0 0"
proof -
  define s0 where "s0 = camera_ray P uv"
  have p0: "pos s0 = camera_pos P" and c0: "color s0 = Vec3 0 0 0"
    and t0: "transmittance s0 = 1"
    by (simp_all add: s0_def camera_ray_def Let_def splat3_def)
  have r: "sqrt (dot3 (pos s0) (pos s0)) < horizon_r (spin_a P)"
    using assms by (simp add: p0 length3_def)
  have step: "march_step P s0
      = (Some Absorbed, s0\<lparr>color := Vec3 0 0 0, transmittance := 0\<rparr>)"
    using r by (simp add: march_step_def Let_def c0 add3_def scale3_def splat3_def)
  have run: "march P max_steps s0 = (Absorbed, s0\<lparr>color := Vec3 0 0 0, transmittance := 0\<rparr>)"
    by (simp add: march_first step)
  have sh: "shade P uv = s0\<lparr>color := Vec3 0 0 0, transmittance := 0\<rparr>"
    by (simp add: shade_def Let_def run s0_def [symmetric])
  show ?thesis
    by (simp add: s0_def [symmetric] step run sh fs_main_def tone_map_black)
qed

theorem absorbed_at_start_witness:
  "length3 (camera_pos frame0) < horizon_r (spin_a frame0)
   \<and> fst (march frame0 max_steps (camera_ray frame0 (Vec2 0.5 0.5))) = Absorbed
   \<and> fs_main frame0 (Vec2 0.5 0.5) = Vec3 0 0 0"
proof -
  have h: "length3 (camera_pos frame0) < horizon_r (spin_a frame0)"
    by (simp add: frame0_def length3_def dot3_def horizon_r_def spin_a_def clampf_def)
  show ?thesis using h absorbed_at_start [OF h, of "Vec2 0.5 0.5"] by simp
qed

section \<open>The blackbody ramp\<close>

lemma smoothstep_one: "lo < hi \<Longrightarrow> hi \<le> x \<Longrightarrow> smoothstep lo hi x = 1"
  by (simp add: smoothstep_def clampf_def Let_def)

lemma blackbody_clamps: "blackbody temp = blackbody (clampf temp 0 1)"
  by (simp add: blackbody_def Let_def clampf_def)

lemma blackbody_zero: "blackbody 0 = Vec3 0 0 0"
  by (simp add: blackbody_def Let_def clampf_def smoothstep_def)

section \<open>Bounds on the procedural noise\<close>

lemma fract_range: "0 \<le> fract x \<and> fract x < 1"
proof -
  have "fract x = frac x" by (simp add: fract_def frac_def)
  then show ?thesis using frac_ge_0 [of x] frac_lt_1 [of x] by simp
qed

lemma hash_range: "0 \<le> hash p \<and> hash p \<le> 1"
  using fract_range [of "sin (dot2 p (Vec2 12.9898 78.233)) * 43758.5453"]
  by (simp add: hash_def)

lemma mixf_range:
  assumes "0 \<le> a" "a \<le> 1" "0 \<le> b" "b \<le> 1" "0 \<le> t" "t \<le> 1"
  shows "0 \<le> mixf a b t \<and> mixf a b t \<le> 1"
proof -
  have lo: "0 \<le> a * (1 - t) + b * t" using assms by simp
  have "a * (1 - t) \<le> 1 * (1 - t)" using assms by (intro mult_right_mono) simp_all
  moreover have "b * t \<le> 1 * t" using assms by (intro mult_right_mono) simp_all
  ultimately have "a * (1 - t) + b * t \<le> 1" by simp
  then show ?thesis using lo by (simp add: mixf_def)
qed

lemma hermite_range:
  assumes "0 \<le> t" "t \<le> (1::real)"
  shows "0 \<le> t * t * (3 - 2 * t) \<and> t * t * (3 - 2 * t) \<le> 1"
proof -
  have lo: "0 \<le> t * t * (3 - 2 * t)" using assms by simp
  have "0 \<le> (1 - t) * (1 - t) * (1 + 2 * t)" using assms by simp
  also have "(1 - t) * (1 - t) * (1 + 2 * t) = 1 - t * t * (3 - 2 * t)"
    by (simp add: algebra_simps)
  finally show ?thesis using lo by simp
qed

lemma smoothstep_range: "0 \<le> smoothstep lo hi x \<and> smoothstep lo hi x \<le> 1"
  using hermite_range [of "clampf ((x - lo) / (hi - lo)) 0 1"]
  by (simp add: smoothstep_def Let_def clampf_def)

lemma noise_range: "0 \<le> noise x \<and> noise x \<le> 1"
proof -
  define ux where "ux = fract (v2x x) * fract (v2x x) * (3 - fract (v2x x) * 2)"
  define uy where "uy = fract (v2y x) * fract (v2y x) * (3 - fract (v2y x) * 2)"
  have ux: "0 \<le> ux \<and> ux \<le> 1"
    using hermite_range [of "fract (v2x x)"] fract_range [of "v2x x"]
    by (simp add: ux_def mult.commute)
  have uy: "0 \<le> uy \<and> uy \<le> 1"
    using hermite_range [of "fract (v2y x)"] fract_range [of "v2y x"]
    by (simp add: uy_def mult.commute)
  have eq: "noise x =
      mixf (mixf (hash (add2 (floor2 x) (Vec2 0 0))) (hash (add2 (floor2 x) (Vec2 1 0))) ux)
           (mixf (hash (add2 (floor2 x) (Vec2 0 1))) (hash (add2 (floor2 x) (Vec2 1 1))) ux)
           uy"
    by (simp add: noise_def Let_def mul2_def sub2_def splat2_def scale2_def fract2_def
        ux_def uy_def)
  show ?thesis unfolding eq
    by (intro mixf_range conjunct1 [OF mixf_range] conjunct2 [OF mixf_range])
       (simp_all add: hash_range ux uy)
qed

lemma fbm_loop_range:
  "0 \<le> a \<Longrightarrow> v \<le> fbm_loop n v a pp \<and> fbm_loop n v a pp \<le> v + 2 * a"
proof (induction n arbitrary: v a pp)
  case 0
  then show ?case by simp
next
  case (Suc n)
  let ?v = "v + a * noise pp"
  let ?pp = "add2 (scale2 (rot_apply pp) 2) (splat2 100)"
  have ih: "?v \<le> fbm_loop n ?v (a * 0.5) ?pp \<and> fbm_loop n ?v (a * 0.5) ?pp \<le> ?v + 2 * (a * 0.5)"
    using Suc.prems by (intro Suc.IH) simp
  have n0: "0 \<le> a * noise pp" using Suc.prems noise_range [of pp] by simp
  have "a * noise pp \<le> a * 1" using Suc.prems noise_range [of pp] by (intro mult_left_mono) simp_all
  then have n1: "a * noise pp \<le> a" by simp
  show ?case using ih n0 n1 by simp
qed

lemma fbm_range: "0 \<le> fbm p \<and> fbm p \<le> 1"
  using fbm_loop_range [of "0.5" 0 5 p] by (simp add: fbm_def)

lemma density_le_outer_fade:
  "density P s \<le> smoothstep accretion_max (accretion_max - 2) (sqrt (dot3 (pos s) (pos s)))"
proof -
  define r where "r = sqrt (dot3 (pos s) (pos s))"
  define n where "n = fbm (scale2 (Vec2 (r * 2)
      (atan2 (vz (pos s)) (vx (pos s)) - time P * omega_gas (spin_a P) (pos s) * 10)) 2) * 0.7
    + fbm (add2 (scale2 (Vec2 (r * 2)
      (atan2 (vz (pos s)) (vx (pos s)) - time P * omega_gas (spin_a P) (pos s) * 10)) 6)
      (Vec2 (time P) 0)) * 0.3"
  define vf where "vf = smoothstep (disk_h r) 0 \<bar>vy (pos s)\<bar>"
  define f1 where "f1 = smoothstep (accretion_min (spin_a P)) (accretion_min (spin_a P) + 1) r"
  define f2 where "f2 = smoothstep accretion_max (accretion_max - 2) r"
  have eq: "density P s = n * vf * (f1 * f2)"
    by (simp add: density_def Let_def n_def vf_def f1_def f2_def r_def)
  have n: "0 \<le> n \<and> n \<le> 1"
    unfolding n_def
    using fbm_range [of "scale2 (Vec2 (r * 2)
      (atan2 (vz (pos s)) (vx (pos s)) - time P * omega_gas (spin_a P) (pos s) * 10)) 2"]
      fbm_range [of "add2 (scale2 (Vec2 (r * 2)
      (atan2 (vz (pos s)) (vx (pos s)) - time P * omega_gas (spin_a P) (pos s) * 10)) 6)
      (Vec2 (time P) 0)"]
    by simp
  have vf: "0 \<le> vf \<and> vf \<le> 1" unfolding vf_def by (rule smoothstep_range)
  have f1: "0 \<le> f1 \<and> f1 \<le> 1" unfolding f1_def by (rule smoothstep_range)
  have f2: "0 \<le> f2 \<and> f2 \<le> 1" unfolding f2_def by (rule smoothstep_range)
  have a: "n * vf \<le> 1 * 1" using n vf by (intro mult_mono) simp_all
  have b: "f1 * f2 \<le> 1 * f2" using f1 f2 by (intro mult_right_mono) simp_all
  have "n * vf * (f1 * f2) \<le> 1 * f2"
    using a b n vf f1 f2 by (intro mult_mono) simp_all
  then show ?thesis by (simp add: eq f2_def r_def)
qed

section \<open>Skipped disk samples\<close>

text \<open>
  C10: in a step whose position satisfies the disk guard, a sample with density at most 0.05
  or with squared gas speed at least 0.99 leaves the accumulated colour and the transmittance
  of the step exactly as they were.
\<close>

theorem disk_sample_skipped:
  assumes "in_disk P s" and "density P s \<le> 0.05 \<or> beta_sq P s \<ge> 0.99"
  shows "color (snd (march_step P s)) = color s
         \<and> transmittance (snd (march_step P s)) = transmittance s
         \<and> disk_shader P s = s"
proof -
  have ds: "disk_shader P s = s"
    using assms(2) by (auto simp add: disk_shader_def)
  have "accretion_min (spin_a P) < sqrt (dot3 (pos s) (pos s))"
    using assms(1) by (simp add: in_disk_def Let_def)
  then have "\<not> sqrt (dot3 (pos s) (pos s)) < horizon_r (spin_a P)"
    using accretion_min_gt_horizon [of P] by simp
  then show ?thesis
    using assms(1) by (simp add: march_step_def Let_def ds geodesic_step_def)
qed

theorem disk_sample_skipped_witness:
  "in_disk frame0 (ray_at (Vec3 11.9 0 0) (Vec3 0 0 1))
   \<and> density frame0 (ray_at (Vec3 11.9 0 0) (Vec3 0 0 1)) \<le> 0.05
   \<and> color (snd (march_step frame0 (ray_at (Vec3 11.9 0 0) (Vec3 0 0 1)))) = Vec3 0 0 0
   \<and> transmittance (snd (march_step frame0 (ray_at (Vec3 11.9 0 0) (Vec3 0 0 1)))) = 1"
proof -
  let ?s = "ray_at (Vec3 11.9 0 0) (Vec3 0 0 1)"
  have r: "sqrt (dot3 (pos ?s) (pos ?s)) = 11.9"
    by (rule sqrt_sq_eq) (simp_all add: ray_at_def dot3_def)
  have i: "sqrt (9::real) = 3" by (rule sqrt_sq_eq) simp_all
  have d: "in_disk frame0 ?s"
    unfolding in_disk_def Let_def r
    by (simp add: ray_at_def frame0_def spin_a_def clampf_def accretion_min_def isco_def i
        accretion_max_def disk_h_def)
  have "density frame0 ?s \<le> smoothstep accretion_max (accretion_max - 2) 11.9"
    using density_le_outer_fade [of frame0 ?s] unfolding r .
  also have "smoothstep accretion_max (accretion_max - 2) 11.9 \<le> 0.05"
    by (simp add: smoothstep_def Let_def accretion_max_def clampf_def)
  finally have e: "density frame0 ?s \<le> 0.05" .
  show ?thesis
    using d e disk_sample_skipped [of frame0 ?s]
    by (simp add: ray_at_def splat3_def)
qed

section \<open>The accumulators along the integration\<close>

lemma blackbody_nonneg:
  "0 \<le> vx (blackbody t) \<and> 0 \<le> vy (blackbody t) \<and> 0 \<le> vz (blackbody t)"
proof -
  define c where "c = clampf t 0 1"
  have c: "0 \<le> c" by (simp add: c_def clampf_def)
  have s1: "0 \<le> smoothstep 0.1 0.5 c" and s2: "0 \<le> smoothstep 0.4 0.8 c"
    using smoothstep_range by simp_all
  have g: "0 \<le> min (c * 1.5) 1 * smoothstep 0.1 0.5 c" using c s1 by simp
  have b: "0 \<le> min (c * 0.5) 1 * smoothstep 0.4 0.8 c" using c s2 by simp
  show ?thesis using c g b by (simp add: blackbody_def Let_def c_def [symmetric])
qed

lemma alpha_range:
  assumes "0 < density P s"
  shows "0 < alpha P s \<and> alpha P s < 1"
proof -
  have "0 < density P s * max 0.01 (step_dist s) * 2" using assms by simp
  then have "exp (- (density P s * max 0.01 (step_dist s) * 2)) < 1" by simp
  then show ?thesis by (simp add: alpha_def Let_def)
qed

lemma emission_nonneg:
  assumes "0 \<le> disk_intensity P" "0 \<le> density P s"
  shows "0 \<le> vx (emission P s) \<and> 0 \<le> vy (emission P s) \<and> 0 \<le> vz (emission P s)"
proof -
  define r where "r = sqrt (dot3 (pos s) (pos s))"
  define tp where "tp = powf (accretion_min (spin_a P) / r) 1.5"
  define k where "k = density P s * tp * powf (shift P s) 4 * disk_intensity P"
  have tp: "0 \<le> tp" by (simp add: tp_def powf_def)
  have "0 \<le> powf (shift P s) 4" by (simp add: powf_def)
  then have k: "0 \<le> k" using assms tp by (simp add: k_def)
  have eq: "emission P s = scale3 (scale3 (blackbody (tp * shift P s)) k) 2"
    by (simp add: emission_def Let_def k_def tp_def r_def)
  show ?thesis using blackbody_nonneg [of "tp * shift P s"] k
    by (simp add: eq scale3_def)
qed

lemma march_step_accumulators:
  "color (snd (march_step P s))
     = add3 (color s) (scale3 (scale3 (emission P s) (alpha_eff P s)) (transmittance s))
   \<and> transmittance (snd (march_step P s))
     = (if length3 (pos s) < horizon_r (spin_a P) then 0
        else transmittance s * (1 - alpha_eff P s))"
proof (cases "length3 (pos s) < horizon_r (spin_a P)")
  case True
  then have "\<not> in_disk P s"
    using accretion_min_gt_horizon [of P] by (simp add: in_disk_def Let_def length3_def)
  then have "alpha_eff P s = 0" by (simp add: alpha_eff_def)
  then show ?thesis using True
    by (simp add: march_step_def Let_def length3_def add3_def scale3_def splat3_def)
next
  case False
  then show ?thesis
    by (simp add: march_step_def Let_def length3_def geodesic_step_def disk_shader_def
        alpha_eff_def add3_def scale3_def)
qed

lemma alpha_eff_range: "0 \<le> alpha_eff P s \<and> alpha_eff P s < 1"
proof (cases "in_disk P s \<and> beta_sq P s < 0.99 \<and> density P s > 0.05")
  case True
  then have "0 < density P s" by simp
  then show ?thesis using alpha_range [of P s] True by (simp add: alpha_eff_def)
next
  case False
  then show ?thesis by (auto simp add: alpha_eff_def)
qed

lemma march_step_transmittance:
  assumes "0 \<le> transmittance s" "transmittance s \<le> 1"
  shows "0 \<le> transmittance (snd (march_step P s))
         \<and> transmittance (snd (march_step P s)) \<le> transmittance s"
proof -
  have a: "0 \<le> 1 - alpha_eff P s" "1 - alpha_eff P s \<le> 1"
    using alpha_eff_range [of P s] by simp_all
  have "transmittance s * (1 - alpha_eff P s) \<le> transmittance s * 1"
    using assms a by (intro mult_left_mono) simp_all
  moreover have "0 \<le> transmittance s * (1 - alpha_eff P s)" using assms a by simp
  ultimately show ?thesis using assms
    by (simp add: march_step_accumulators)
qed

lemma march_step_color_grows:
  assumes "0 \<le> disk_intensity P" "0 \<le> transmittance s"
  shows "vec3_le (color s) (color (snd (march_step P s)))"
proof (cases "alpha_eff P s = 0")
  case True
  then show ?thesis
    by (simp add: march_step_accumulators vec3_le_def add3_def scale3_def)
next
  case False
  then have "density P s > 0.05" by (auto simp add: alpha_eff_def split: if_splits)
  then have e: "0 \<le> vx (emission P s) \<and> 0 \<le> vy (emission P s) \<and> 0 \<le> vz (emission P s)"
    using emission_nonneg [of P s] assms by simp
  have a: "0 \<le> alpha_eff P s" using alpha_eff_range [of P s] by simp
  show ?thesis using e a assms
    by (simp add: march_step_accumulators vec3_le_def add3_def scale3_def)
qed

lemma state_after_Suc_step:
  "state_after P (Suc k) s = state_after P k s
   \<or> state_after P (Suc k) s = snd (march_step P (state_after P k s))"
proof (induction k arbitrary: s)
  case 0
  then show ?case by (simp split: prod.splits option.splits)
next
  case (Suc k)
  show ?case
  proof (cases "march_step P s")
    case (Pair w s')
    then show ?thesis using Suc.IH [of s'] by (cases w) simp_all
  qed
qed

lemma state_after_transmittance_range:
  "0 \<le> transmittance s \<Longrightarrow> transmittance s \<le> 1 \<Longrightarrow>
   0 \<le> transmittance (state_after P k s) \<and> transmittance (state_after P k s) \<le> 1"
proof (induction k arbitrary: s)
  case 0
  then show ?case by simp
next
  case (Suc k)
  have st: "0 \<le> transmittance (snd (march_step P s))
            \<and> transmittance (snd (march_step P s)) \<le> 1"
    using march_step_transmittance [of s P] Suc.prems by simp
  show ?case
  proof (cases "march_step P s")
    case (Pair w s')
    then show ?thesis using st Suc.IH [of s'] by (cases w) simp_all
  qed
qed

text \<open>
  C1: for every pixel and all frame parameters the transmittance starts at 1, stays in
  \<open>[0, 1]\<close> and never increases from one iteration to the next; with a non-negative disk
  intensity (the domain of the frame parameters) the accumulated colour never decreases in
  any channel.  Every iteration adds \<open>emission \<cdot> alpha \<cdot> transmittance\<close>, taken with the
  transmittance before the step, to the colour, and multiplies the transmittance by
  \<open>1 - alpha\<close> (or sets it to 0 at the horizon), where \<open>alpha\<close> lies in \<open>[0, 1)\<close> and is 0 when
  the disk update is skipped.
\<close>

theorem transmittance_monotone:
  "transmittance (camera_ray P uv) = 1
   \<and> color (camera_ray P uv) = Vec3 0 0 0
   \<and> 0 \<le> transmittance (state_after P k (camera_ray P uv))
   \<and> transmittance (state_after P k (camera_ray P uv)) \<le> 1
   \<and> transmittance (state_after P (Suc k) (camera_ray P uv))
       \<le> transmittance (state_after P k (camera_ray P uv))
   \<and> (0 \<le> disk_intensity P \<longrightarrow>
        vec3_le (color (state_after P k (camera_ray P uv)))
                (color (state_after P (Suc k) (camera_ray P uv))))
   \<and> color (snd (march_step P s))
       = add3 (color s) (scale3 (scale3 (emission P s) (alpha_eff P s)) (transmittance s))
   \<and> transmittance (snd (march_step P s))
       = (if length3 (pos s) < horizon_r (spin_a P) then 0
          else transmittance s * (1 - alpha_eff P s))
   \<and> 0 \<le> alpha_eff P s \<and> alpha_eff P s < 1"
proof -
  define s0 where "s0 = camera_ray P uv"
  have t0: "transmittance s0 = 1" and c0: "color s0 = Vec3 0 0 0"
    by (simp_all add: s0_def camera_ray_def Let_def splat3_def)
  have rng: "0 \<le> transmittance (state_after P k s0) \<and> transmittance (state_after P k s0) \<le> 1"
    by (rule state_after_transmittance_range) (simp_all add: t0)
  have mono: "transmittance (state_after P (Suc k) s0) \<le> transmittance (state_after P k s0)"
    using state_after_Suc_step [of P k s0] march_step_transmittance [of "state_after P k s0" P] rng
    by auto
  have grow: "vec3_le (color (state_after P k s0)) (color (state_after P (Suc k) s0))"
    if "0 \<le> disk_intensity P"
    using state_after_Suc_step [of P k s0] march_step_color_grows [of P "state_after P k s0"]
      rng that
    by (auto simp add: vec3_le_def)
  show ?thesis
    using t0 c0 rng mono grow march_step_accumulators [of P s] alpha_eff_range [of P s]
    unfolding s0_def by blast
qed

theorem transmittance_monotone_witness:
  "0 \<le> disk_intensity frame0
   \<and> vec3_le (color (state_after frame0 0 (camera_ray frame0 (Vec2 0.5 0.5))))
              (color (state_after frame0 (Suc 0) (camera_ray frame0 (Vec2 0.5 0.5))))
   \<and> transmittance (state_after frame0 (Suc 0) (camera_ray frame0 (Vec2 0.5 0.5)))
       \<le> transmittance (state_after frame0 0 (camera_ray frame0 (Vec2 0.5 0.5)))"
proof -
  have h: "0 \<le> disk_intensity frame0" by (simp add: frame0_def)
  show ?thesis
    using h transmittance_monotone [of frame0 "Vec2 0.5 0.5" 0] by blast
qed

section \<open>Straight rays\<close>

lemma dot3_scale3: "dot3 (scale3 u c) (scale3 u c) = c * c * dot3 u u"
  by (simp add: dot3_def scale3_def algebra_simps)

lemma radial_step:
  assumes u: "dot3 u u = 1" and c: "25 \<le> c"
    and p: "pos s = scale3 u c" and v: "vel s = u"
    and t: "0.01 \<le> transmittance s" and l: "\<not> lensing_enabled P > 0.5"
  shows "march_step P s
     = ((if c > 30 then Some Escaped else None),
        s\<lparr>step_dist := 0.5, vel := u, pos := scale3 u (c + 0.5)\<rparr>)"
proof -
  have r: "sqrt (dot3 (pos s) (pos s)) = c"
    using c by (intro sqrt_sq_eq) (simp_all add: p dot3_scale3 u)
  have hz: "horizon_r (spin_a P) \<le> 2" by (rule horizon_r_le_2)
  have nd: "\<not> in_disk P s" by (simp add: in_disk_def Let_def r accretion_max_def) (use c in simp)
  have "geodesic_step P s
           = s\<lparr>step_dist := 0.5, vel := vel s, pos := add3 (pos s) (scale3 (vel s) 0.5)\<rparr>"
    using l hz c by (simp add: geodesic_step_def Let_def r clampf_def)
  then have g: "geodesic_step P s
                  = s\<lparr>step_dist := 0.5, vel := u, pos := scale3 u (c + 0.5)\<rparr>"
    by (simp add: v p add3_def scale3_def algebra_simps)
  have na: "\<not> c < horizon_r (spin_a P)" using hz c by simp
  have no: "\<not> transmittance s < 0.01" using t by simp
  show ?thesis
    using na nd no by (simp add: march_step_def Let_def r g)
qed

lemma radial_run:
  assumes u: "dot3 u u = 1" and l: "\<not> lensing_enabled P > 0.5"
  shows "25 \<le> c \<Longrightarrow> 2 * c + real m \<le> 61 \<Longrightarrow> pos s = scale3 u c \<Longrightarrow> vel s = u \<Longrightarrow>
         0.01 \<le> transmittance s \<Longrightarrow>
         \<exists>s'. pos s' = scale3 u (c + real m / 2) \<and> vel s' = u
              \<and> transmittance s' = transmittance s
              \<and> (\<forall>n. march P (m + n) s = march P n s'
                       \<and> state_after P (m + n) s = state_after P n s')"
proof (induction m arbitrary: c s)
  case 0
  then show ?case by (intro exI [of _ s]) simp
next
  case (Suc m)
  let ?s1 = "s\<lparr>step_dist := 0.5, vel := u, pos := scale3 u (c + 0.5)\<rparr>"
  have m0: "0 \<le> real m" by simp
  have b: "2 * c + (real m + 1) \<le> 61" using Suc.prems(2) by (simp only: of_nat_Suc)
  have c30: "\<not> c > 30" using m0 b by argo
  have st: "march_step P s = (None, ?s1)"
    using radial_step [OF u Suc.prems(1) Suc.prems(3) Suc.prems(4) Suc.prems(5) l] c30 by simp
  have c1: "25 \<le> c + 0.5" using Suc.prems(1) by argo
  have b1: "2 * (c + 0.5) + real m \<le> 61" using b by argo
  have "\<exists>s'. pos s' = scale3 u (c + 0.5 + real m / 2) \<and> vel s' = u
              \<and> transmittance s' = transmittance ?s1
              \<and> (\<forall>n. march P (m + n) ?s1 = march P n s'
                       \<and> state_after P (m + n) ?s1 = state_after P n s')"
    using c1 b1 Suc.prems(5) by (intro Suc.IH) simp_all
  then obtain s' where s': "pos s' = scale3 u (c + 0.5 + real m / 2)" "vel s' = u"
      "transmittance s' = transmittance ?s1"
      "\<And>n. march P (m + n) ?s1 = march P n s'"
      "\<And>n. state_after P (m + n) ?s1 = state_after P n s'"
    by blast
  have e: "c + 0.5 + real m / 2 = c + real (Suc m) / 2" by (simp only: of_nat_Suc) argo
  show ?case
  proof (intro exI [of _ s'] conjI allI)
    show "pos s' = scale3 u (c + real (Suc m) / 2)" using s'(1) unfolding e .
    show "vel s' = u" by (rule s'(2))
    show "transmittance s' = transmittance s" using s'(3) by simp
    show "march P (Suc m + n) s = march P n s'" for n using s'(4) [of n] by (simp add: st)
    show "state_after P (Suc m + n) s = state_after P n s'" for n
      using s'(5) [of n] by (simp add: st)
  qed
qed

lemma march_state_after: "snd (march P n s) = state_after P n s"
proof (induction n arbitrary: s)
  case 0
  then show ?case by simp
next
  case (Suc n)
  show ?case
  proof (cases "march_step P s")
    case (Pair w s')
    then show ?thesis using Suc.IH [of s'] by (cases w) simp_all
  qed
qed

text \<open>
  C5: with lensing disabled, a ray that starts at \<open>r = 25\<close> and moves directly away from the
  origin leaves the loop through the escape \<open>break\<close> with final radius 31, above 30.  Its
  velocity is never modified, and after \<open>k\<close> iterations its position is the starting point
  plus the velocity times the path length \<open>0.5 \<cdot> min k 12\<close> (twelve steps of length 0.5 are
  taken before the loop ends).
\<close>

theorem outward_ray_escapes:
  assumes r0: "length3 (pos s0) = 25" and v0: "vel s0 = normalize3 (pos s0)"
    and t0: "transmittance s0 = 1" and l: "\<not> lensing_enabled P > 0.5"
  shows "fst (march P max_steps s0) = Escaped
         \<and> length3 (pos (snd (march P max_steps s0))) = 31
         \<and> snd (march P max_steps s0) = state_after P 12 s0
         \<and> vel (state_after P k s0) = vel s0
         \<and> pos (state_after P k s0) = add3 (pos s0) (scale3 (vel s0) (0.5 * real (min k 12)))"
proof -
  define u where "u = vel s0"
  have u_eq: "u = scale3 (pos s0) (1 / 25)"
    by (simp add: u_def v0 normalize3_def r0 scale3_def)
  have d0: "dot3 (pos s0) (pos s0) = 625"
  proof -
    have "sqrt (dot3 (pos s0) (pos s0)) = sqrt 625"
      using r0 sqrt_sq_eq [of 25 625] by (simp add: length3_def)
    then show ?thesis by (simp only: real_sqrt_eq_iff)
  qed
  have uu: "dot3 u u = 1" by (simp add: u_eq dot3_scale3 d0)
  have p0: "pos s0 = scale3 u 25" by (cases "pos s0") (simp add: u_eq scale3_def)
  have v: "vel s0 = u" by (simp add: u_def)
  have t: "0.01 \<le> transmittance s0" by (simp add: t0)
  have lin: "add3 (pos s0) (scale3 u x) = scale3 u (25 + x)" for x
    by (simp add: p0 add3_def scale3_def algebra_simps)
  obtain s11 where s11: "pos s11 = scale3 u (25 + real (11::nat) / 2)" "vel s11 = u"
      "transmittance s11 = transmittance s0"
      "\<And>n. march P (11 + n) s0 = march P n s11"
      "\<And>n. state_after P (11 + n) s0 = state_after P n s11"
    using radial_run [OF uu l _ _ p0 v t, of 11] by auto
  let ?s12 = "s11\<lparr>step_dist := 0.5, vel := u, pos := scale3 u (30.5 + 0.5)\<rparr>"
  have p11: "pos s11 = scale3 u 30.5" using s11(1) by simp
  have st: "march_step P s11 = (Some Escaped, ?s12)"
    using radial_step [OF uu _ p11 s11(2) _ l] s11(3) t0 by simp
  have esc: "march P (Suc n) s11 = (Escaped, ?s12)" for n
    by (simp add: st)
  have run: "march P max_steps s0 = (Escaped, ?s12)"
  proof -
    have "max_steps = 11 + Suc 108" by (simp add: max_steps_def)
    then have "march P max_steps s0 = march P (11 + Suc 108) s0" by (simp only:)
    also have "\<dots> = march P (Suc 108) s11" by (rule s11(4))
    also have "\<dots> = (Escaped, ?s12)" by (rule esc)
    finally show ?thesis .
  qed
  have late: "state_after P (12 + j) s0 = ?s12" for j
  proof -
    have "state_after P (Suc j) s11 = ?s12" by (simp add: st)
    then have "state_after P (11 + Suc j) s0 = ?s12" by (simp only: s11(5))
    moreover have "11 + Suc j = 12 + j" by simp
    ultimately show ?thesis by (simp only:)
  qed
  have len: "length3 (pos ?s12) = 31"
    unfolding length3_def by (rule sqrt_sq_eq) (simp_all add: dot3_scale3 uu)
  have traj: "vel (state_after P k s0) = u
              \<and> pos (state_after P k s0) = scale3 u (25 + 0.5 * real (min k 12))"
  proof (cases "k \<le> 11")
    case True
    then have b: "2 * 25 + real k \<le> 61" by simp
    obtain s' where s': "pos s' = scale3 u (25 + real k / 2)" "vel s' = u"
        "\<And>n. state_after P (k + n) s0 = state_after P n s'"
      using radial_run [OF uu l _ b p0 v t] by auto
    have "state_after P k s0 = s'" using s'(3) [of 0] by simp
    moreover have "min k 12 = k" using True by simp
    ultimately show ?thesis using s'(1) s'(2) by simp
  next
    case False
    then have "12 \<le> k" by simp
    then obtain j where j: "k = 12 + j" using le_Suc_ex by blast
    have m: "min k 12 = 12" using False by simp
    have sa: "state_after P k s0 = ?s12" unfolding j by (rule late)
    have "(25::real) + 0.5 * real (12::nat) = 30.5 + 0.5" by simp
    then show ?thesis unfolding sa m by simp
  qed
  have twelve: "state_after P 12 s0 = ?s12" using late [of 0] by simp
  show ?thesis
    using run len traj twelve by (simp add: lin v)
qed

lemma camera_ray_flat:
  "camera_ray frame_flat (Vec2 0.5 0.5) = ray_at (Vec3 25 0 0) (Vec3 1 0 0)"
proof -
  have a: "sqrt (9 / 4 :: real) = 3 / 2" by (rule sqrt_sq_eq) simp_all
  show ?thesis
    by (simp add: camera_ray_def Let_def frame_flat_def ray_at_def normalize3_def length3_def
        dot3_def cross3_def scale3_def add3_def sub2_def scale2_def splat2_def a)
qed

theorem outward_ray_escapes_witness:
  "length3 (pos (camera_ray frame_flat (Vec2 0.5 0.5))) = 25
   \<and> vel (camera_ray frame_flat (Vec2 0.5 0.5))
     = normalize3 (pos (camera_ray frame_flat (Vec2 0.5 0.5)))
   \<and> transmittance (camera_ray frame_flat (Vec2 0.5 0.5)) = 1
   \<and> \<not> lensing_enabled frame_flat > 0.5
   \<and> fst (march frame_flat max_steps (camera_ray frame_flat (Vec2 0.5 0.5))) = Escaped
   \<and> length3 (pos (snd (march frame_flat max_steps (camera_ray frame_flat (Vec2 0.5 0.5)))))
     = 31"
proof -
  let ?s = "camera_ray frame_flat (Vec2 0.5 0.5)"
  have r: "sqrt (625::real) = 25" by (rule sqrt_sq_eq) simp_all
  have h1: "length3 (pos ?s) = 25"
    unfolding camera_ray_flat by (simp add: ray_at_def length3_def dot3_def r)
  have h2: "vel ?s = normalize3 (pos ?s)"
    unfolding camera_ray_flat by (simp add: ray_at_def normalize3_def length3_def dot3_def r)
  have h3: "transmittance ?s = 1" unfolding camera_ray_flat by (simp add: ray_at_def)
  have h4: "\<not> lensing_enabled frame_flat > 0.5" by (simp add: frame_flat_def)
  show ?thesis
    using h1 h2 h3 h4 outward_ray_escapes [OF h1 h2 h3 h4, of 0] by blast
qed

section \<open>The spin parameter\<close>

text \<open>
  Where the clamp cannot be observed: for a spin of at most 0.99, or with lensing disabled,
  the pixel is the same for \<open>spin\<close> and for \<open>clamp(spin, 0, 0.99)\<close>.
\<close>

lemma clamped_fields:
  assumes "Q = P\<lparr>spin := clampf (spin P) 0 0.99\<rparr>"
  shows "spin_a Q = spin_a P" and "time Q = time P"
    and "disk_intensity Q = disk_intensity P" and "lensing_enabled Q = lensing_enabled P"
    and "resolution Q = resolution P" and "camera_pos Q = camera_pos P"
    and "camera_dir Q = camera_dir P"
  unfolding assms by (simp_all add: spin_a_def clampf_def)

lemma acc_spin_clamped:
  assumes "Q = P\<lparr>spin := clampf (spin P) 0 0.99\<rparr>" and "spin P \<le> 0.99"
  shows "acc_spin Q s = acc_spin P s"
  using assms(2) unfolding assms(1) by (simp add: acc_spin_def clampf_def max_def min_def)

lemma disk_clamped:
  assumes Q: "Q = P\<lparr>spin := clampf (spin P) 0 0.99\<rparr>"
  shows "in_disk Q s = in_disk P s" and "disk_shader Q s = disk_shader P s"
proof -
  note f = clamped_fields [OF Q]
  show "in_disk Q s = in_disk P s" by (simp add: in_disk_def f)
  have b: "beta_sq Q s = beta_sq P s" by (simp add: beta_sq_def f)
  have sh: "shift Q s = shift P s" by (simp add: shift_def f)
  have d: "density Q s = density P s" by (simp add: density_def f)
  have e: "emission Q s = emission P s" by (simp add: emission_def f sh d)
  have al: "alpha Q s = alpha P s" by (simp add: alpha_def d)
  show "disk_shader Q s = disk_shader P s" by (simp add: disk_shader_def b d e al)
qed

lemma march_step_clamped:
  assumes Q: "Q = P\<lparr>spin := clampf (spin P) 0 0.99\<rparr>"
    and c: "spin P \<le> 0.99 \<or> \<not> lensing_enabled P > 0.5"
  shows "march_step Q s = march_step P s"
proof -
  note f = clamped_fields [OF Q]
  have g: "geodesic_step Q s' = geodesic_step P s'" for s'
  proof (cases "lensing_enabled P > 0.5")
    case True
    then have "acc_spin Q s' = acc_spin P s'" using c acc_spin_clamped [OF Q] by simp
    then show ?thesis by (simp add: geodesic_step_def f)
  next
    case False
    then show ?thesis by (simp add: geodesic_step_def f)
  qed
  show ?thesis
    by (simp add: march_step_def Let_def f disk_clamped [OF Q] g)
qed

lemma march_clamped:
  assumes Q: "Q = P\<lparr>spin := clampf (spin P) 0 0.99\<rparr>"
    and c: "spin P \<le> 0.99 \<or> \<not> lensing_enabled P > 0.5"
  shows "march Q n s = march P n s"
proof (induction n arbitrary: s)
  case 0
  show ?case by simp
next
  case (Suc n)
  show ?case by (simp add: march_step_clamped [OF Q c] Suc.IH split: prod.splits option.splits)
qed

lemma fs_main_clamped:
  assumes Q: "Q = P\<lparr>spin := clampf (spin P) 0 0.99\<rparr>"
    and c: "spin P \<le> 0.99 \<or> \<not> lensing_enabled P > 0.5"
  shows "fs_main Q uv = fs_main P uv"
proof -
  note f = clamped_fields [OF Q]
  have cr: "camera_ray Q uv = camera_ray P uv" by (simp add: camera_ray_def f)
  have b: "background Q v = background P v" for v by (simp add: background_def f)
  have "shade Q uv = shade P uv"
    by (simp add: shade_def Let_def cr b march_clamped [OF Q c])
  then show ?thesis by (simp add: fs_main_def)
qed

lemma camera_ray_spin1:
  "camera_ray frame_spin1 (Vec2 0.5 0.5) = ray_at (Vec3 40 0 0) (Vec3 0 0 1)"
proof -
  have a: "sqrt (9 / 4 :: real) = 3 / 2" by (rule sqrt_sq_eq) simp_all
  show ?thesis
    by (simp add: camera_ray_def Let_def frame_spin1_def ray_at_def normalize3_def length3_def
        dot3_def cross3_def scale3_def add3_def sub2_def scale2_def splat2_def a)
qed

lemma camera_ray_spin_update: "camera_ray (P\<lparr>spin := a\<rparr>) uv = camera_ray P uv"
  by (simp add: camera_ray_def)

lemma first_step_far:
  assumes "spin P = a" "0.01 < a" "lensing_enabled P > 0.5"
  shows "march P max_steps (ray_at (Vec3 40 0 0) (Vec3 0 0 1))
         = (Escaped, (ray_at (Vec3 40 0 0) (Vec3 0 0 1))
              \<lparr>step_dist := 0.5,
               vel := normalize3 (Vec3 (a / 64000) 0 1),
               pos := add3 (Vec3 40 0 0) (scale3 (normalize3 (Vec3 (a / 64000) 0 1)) 0.5)\<rparr>)
         \<and> acc_spin P (ray_at (Vec3 40 0 0) (Vec3 0 0 1)) = Vec3 (a / 32000) 0 0"
proof -
  let ?s = "ray_at (Vec3 40 0 0) (Vec3 0 0 1)"
  have r: "sqrt (dot3 (pos ?s) (pos ?s)) = 40"
    by (rule sqrt_sq_eq) (simp_all add: ray_at_def dot3_def)
  have d: "dot3 (pos ?s) (pos ?s) = 1600" by (simp add: ray_at_def dot3_def)
  have hz: "horizon_r (spin_a P) \<le> 2" by (rule horizon_r_le_2)
  have nd: "\<not> in_disk P ?s" by (simp add: in_disk_def Let_def r accretion_max_def)
  have as: "acc_schwarzschild ?s = Vec3 0 0 0"
    by (simp add: acc_schwarzschild_def Let_def r) (simp add: ray_at_def dot3_def scale3_def)
  have sp: "acc_spin P ?s = Vec3 (a / 32000) 0 0"
    using assms(1,2)
    by (simp add: acc_spin_def Let_def r d powf_def)
       (simp add: ray_at_def dot3_def scale3_def divs3_def sub3_def cross3_def M_def)
  have g: "geodesic_step P ?s
           = ?s\<lparr>step_dist := 0.5, vel := normalize3 (Vec3 (a / 64000) 0 1),
                 pos := add3 (Vec3 40 0 0) (scale3 (normalize3 (Vec3 (a / 64000) 0 1)) 0.5)\<rparr>"
    using assms(3) hz
    by (simp add: geodesic_step_def Let_def r as sp clampf_def)
       (simp add: ray_at_def add3_def scale3_def)
  have st: "march_step P ?s = (Some Escaped, geodesic_step P ?s)"
    using hz nd by (simp add: march_step_def Let_def r) (simp add: ray_at_def)
  show ?thesis by (simp add: march_first st g sp)
qed

lemma camera_ray_orbit:
  "camera_ray frame_orbit (Vec2 0.5 0.5) = ray_at (Vec3 20 0 0) (Vec3 (- 1) 0 0)"
proof -
  have a: "sqrt (9 / 4 :: real) = 3 / 2" by (rule sqrt_sq_eq) simp_all
  show ?thesis
    by (simp add: camera_ray_def Let_def frame_orbit_def ray_at_def normalize3_def length3_def
        dot3_def cross3_def scale3_def add3_def sub2_def scale2_def splat2_def a)
qed

lemma first_step_orbit:
  assumes "spin P = a" "0.01 < a" "lensing_enabled P > 0.5"
  shows "state_after P (Suc 0) (ray_at (Vec3 20 0 0) (Vec3 (- 1) 0 0))
         = (ray_at (Vec3 20 0 0) (Vec3 (- 1) 0 0))
              \<lparr>step_dist := 0.5,
               vel := normalize3 (Vec3 (- 803 / 800) 0 (a / 8000)),
               pos := add3 (Vec3 20 0 0)
                        (scale3 (normalize3 (Vec3 (- 803 / 800) 0 (a / 8000))) 0.5)\<rparr>"
proof -
  let ?s = "ray_at (Vec3 20 0 0) (Vec3 (- 1) 0 0)"
  have r: "sqrt (dot3 (pos ?s) (pos ?s)) = 20"
    by (rule sqrt_sq_eq) (simp_all add: ray_at_def dot3_def)
  have d: "dot3 (pos ?s) (pos ?s) = 400" by (simp add: ray_at_def dot3_def)
  have hz: "horizon_r (spin_a P) \<le> 2" by (rule horizon_r_le_2)
  have nd: "\<not> in_disk P ?s" by (simp add: in_disk_def Let_def r accretion_max_def)
  have as: "acc_schwarzschild ?s = Vec3 (- 3 / 400) 0 0"
    by (simp add: acc_schwarzschild_def Let_def r powf_def RS_def)
       (simp add: ray_at_def dot3_def scale3_def)
  have sp: "acc_spin P ?s = Vec3 0 0 (a / 4000)"
    using assms(1,2)
    by (simp add: acc_spin_def Let_def r d powf_def)
       (simp add: ray_at_def dot3_def scale3_def divs3_def sub3_def cross3_def M_def)
  have g: "geodesic_step P ?s
           = ?s\<lparr>step_dist := 0.5, vel := normalize3 (Vec3 (- 803 / 800) 0 (a / 8000)),
                 pos := add3 (Vec3 20 0 0)
                          (scale3 (normalize3 (Vec3 (- 803 / 800) 0 (a / 8000))) 0.5)\<rparr>"
    using assms(3) hz
    by (simp add: geodesic_step_def Let_def r as sp clampf_def)
       (simp add: ray_at_def add3_def scale3_def)
  have st: "march_step P ?s = (None, geodesic_step P ?s)"
    using hz nd by (simp add: march_step_def Let_def r) (simp add: ray_at_def)
  show ?thesis by (simp add: st g)
qed

lemma orbit_directions_differ:
  "normalize3 (Vec3 (- 803 / 800) 0 (1 / 8000)) \<noteq> normalize3 (Vec3 (- 803 / 800) 0 (0.99 / 8000))"
proof
  assume e: "normalize3 (Vec3 (- 803 / 800) 0 (1 / 8000))
             = normalize3 (Vec3 (- 803 / 800) 0 (0.99 / 8000))"
  have ratio: "vz (normalize3 (Vec3 (- 803 / 800) 0 z))
               = - (800 / 803) * z * vx (normalize3 (Vec3 (- 803 / 800) 0 z))" for z :: real
    by (simp add: normalize3_def)
  have neg: "vx (normalize3 (Vec3 (- 803 / 800) 0 z)) < 0" for z :: real
  proof -
    have "0 \<le> z * z" by simp
    then have "0 < (803 / 800) * (803 / 800) + z * z" by argo
    then have "0 < sqrt ((803 / 800) * (803 / 800) + z * z)" by simp
    then show ?thesis
      by (simp add: normalize3_def length3_def dot3_def divide_neg_pos)
  qed
  define w where "w = vx (normalize3 (Vec3 (- 803 / 800) 0 (1 / 8000)))"
  have w: "w < 0" unfolding w_def by (rule neg)
  have "- (800 / 803) * (1 / 8000) * w = - (800 / 803) * (0.99 / 8000) * w"
    using ratio [of "1 / 8000"] ratio [of "0.99 / 8000"] e unfolding w_def by simp
  then show False using w by simp
qed

text \<open>
  C3 at the spin slider's maximum: with \<open>spin = 1\<close> the gravitomagnetic term is computed from
  the raw uniform, \<open>(1 / 32000, 0, 0)\<close>, not from the clamped value 0.99, which would give
  \<open>(0.99 / 32000, 0, 0)\<close>; the direction with which the ray leaves the marching loop, and
  with which the background is sampled, differs between \<open>spin\<close> and \<open>clamp(spin, 0, 0.99)\<close>.
  The same holds for a camera the application can produce (distance 20, looking at the
  origin): the ray direction after the first iteration already differs.
\<close>

theorem spin_force_ignores_clamp:
  "spin frame_spin1 = 1 \<and> clampf (spin frame_spin1) 0 0.99 = 0.99
   \<and> acc_spin frame_spin1 (camera_ray frame_spin1 (Vec2 0.5 0.5)) = Vec3 (1 / 32000) 0 0
   \<and> acc_spin (frame_spin1\<lparr>spin := clampf (spin frame_spin1) 0 0.99\<rparr>)
        (camera_ray frame_spin1 (Vec2 0.5 0.5)) = Vec3 (0.99 / 32000) 0 0
   \<and> vel (snd (march frame_spin1 max_steps (camera_ray frame_spin1 (Vec2 0.5 0.5))))
     \<noteq> vel (snd (march (frame_spin1\<lparr>spin := clampf (spin frame_spin1) 0 0.99\<rparr>) max_steps
                  (camera_ray (frame_spin1\<lparr>spin := clampf (spin frame_spin1) 0 0.99\<rparr>)
                     (Vec2 0.5 0.5))))
   \<and> vel (state_after frame_orbit (Suc 0) (camera_ray frame_orbit (Vec2 0.5 0.5)))
     \<noteq> vel (state_after (frame_orbit\<lparr>spin := clampf (spin frame_orbit) 0 0.99\<rparr>) (Suc 0)
                  (camera_ray (frame_orbit\<lparr>spin := clampf (spin frame_orbit) 0 0.99\<rparr>)
                     (Vec2 0.5 0.5)))"
proof -
  let ?R = "frame_orbit"
  let ?S = "frame_orbit\<lparr>spin := clampf (spin frame_orbit) 0 0.99\<rparr>"
  let ?t = "ray_at (Vec3 20 0 0) (Vec3 (- 1) 0 0)"
  have o1: "state_after ?R (Suc 0) ?t
      = ?t\<lparr>step_dist := 0.5, vel := normalize3 (Vec3 (- 803 / 800) 0 (1 / 8000)),
            pos := add3 (Vec3 20 0 0)
                     (scale3 (normalize3 (Vec3 (- 803 / 800) 0 (1 / 8000))) 0.5)\<rparr>"
    by (rule first_step_orbit) (simp_all add: frame_orbit_def)
  have o2: "state_after ?S (Suc 0) ?t
      = ?t\<lparr>step_dist := 0.5, vel := normalize3 (Vec3 (- 803 / 800) 0 (0.99 / 8000)),
            pos := add3 (Vec3 20 0 0)
                     (scale3 (normalize3 (Vec3 (- 803 / 800) 0 (0.99 / 8000))) 0.5)\<rparr>"
    by (rule first_step_orbit) (simp_all add: frame_orbit_def clampf_def)
  have co: "camera_ray ?S (Vec2 0.5 0.5) = ?t"
    by (simp only: camera_ray_spin_update camera_ray_orbit)
  have orbit: "vel (state_after ?R (Suc 0) (camera_ray ?R (Vec2 0.5 0.5)))
     \<noteq> vel (state_after ?S (Suc 0) (camera_ray ?S (Vec2 0.5 0.5)))"
    unfolding co camera_ray_orbit o1 o2 using orbit_directions_differ by simp
  let ?P = "frame_spin1"
  let ?Q = "frame_spin1\<lparr>spin := clampf (spin frame_spin1) 0 0.99\<rparr>"
  let ?s = "ray_at (Vec3 40 0 0) (Vec3 0 0 1)"
  have s1: "spin ?P = 1" by (simp add: frame_spin1_def)
  have s2: "spin ?Q = 0.99" by (simp add: frame_spin1_def clampf_def)
  have c: "clampf (spin ?P) 0 0.99 = 0.99" by (simp add: frame_spin1_def clampf_def)
  have l1: "lensing_enabled ?P > 0.5" by (simp add: frame_spin1_def)
  have l2: "lensing_enabled ?Q > 0.5" by (simp add: frame_spin1_def)
  have f1: "march ?P max_steps ?s
         = (Escaped, ?s\<lparr>step_dist := 0.5, vel := normalize3 (Vec3 (1 / 64000) 0 1),
               pos := add3 (Vec3 40 0 0) (scale3 (normalize3 (Vec3 (1 / 64000) 0 1)) 0.5)\<rparr>)"
    and a1: "acc_spin ?P ?s = Vec3 (1 / 32000) 0 0"
    using first_step_far [OF s1 _ l1] by simp_all
  have f2: "march ?Q max_steps ?s
         = (Escaped, ?s\<lparr>step_dist := 0.5, vel := normalize3 (Vec3 (0.99 / 64000) 0 1),
               pos := add3 (Vec3 40 0 0) (scale3 (normalize3 (Vec3 (0.99 / 64000) 0 1)) 0.5)\<rparr>)"
    and a2: "acc_spin ?Q ?s = Vec3 (0.99 / 32000) 0 0"
    using first_step_far [OF s2 _ l2] by simp_all
  have ne: "normalize3 (Vec3 (1 / 64000) 0 1) \<noteq> normalize3 (Vec3 (0.99 / 64000) 0 1)"
  proof
    assume e: "normalize3 (Vec3 (1 / 64000) 0 1) = normalize3 (Vec3 (0.99 / 64000) 0 1)"
    have ratio: "vx (normalize3 (Vec3 x 0 1)) = x * vz (normalize3 (Vec3 x 0 1))" for x :: real
      by (simp add: normalize3_def)
    have pos: "0 < vz (normalize3 (Vec3 x 0 1))" for x :: real
    proof -
      have "0 \<le> x * x" by simp
      then have "0 < x * x + 1" by linarith
      then show ?thesis by (simp add: normalize3_def length3_def dot3_def)
    qed
    have "(1 / 64000) * vz (normalize3 (Vec3 (1 / 64000) 0 1))
          = (0.99 / 64000) * vz (normalize3 (Vec3 (0.99 / 64000) 0 1))"
      using ratio [of "1 / 64000"] ratio [of "0.99 / 64000"] e by simp
    then have "(1 / 64000) * vz (normalize3 (Vec3 (1 / 64000) 0 1))
          = (0.99 / 64000) * vz (normalize3 (Vec3 (1 / 64000) 0 1))"
      using e by simp
    then show False using pos [of "1 / 64000"] by simp
  qed
  have cr: "camera_ray ?Q (Vec2 0.5 0.5) = ?s"
    by (simp only: camera_ray_spin_update camera_ray_spin1)
  have far: "vel (snd (march ?P max_steps (camera_ray ?P (Vec2 0.5 0.5))))
     \<noteq> vel (snd (march ?Q max_steps (camera_ray ?Q (Vec2 0.5 0.5))))"
    unfolding cr camera_ray_spin1 f1 f2 using ne by simp
  have b1: "acc_spin ?P (camera_ray ?P (Vec2 0.5 0.5)) = Vec3 (1 / 32000) 0 0"
    unfolding camera_ray_spin1 by (rule a1)
  have b2: "acc_spin ?Q (camera_ray ?P (Vec2 0.5 0.5)) = Vec3 (0.99 / 32000) 0 0"
    unfolding camera_ray_spin1 by (rule a2)
  show ?thesis
    using s1 c b1 b2 far orbit by blast
qed

section \<open>Monotonicity of the blackbody ramp\<close>

lemma hermite_mono:
  assumes "0 \<le> a" "a \<le> b" "b \<le> (1::real)"
  shows "a * a * (3 - 2 * a) \<le> b * b * (3 - 2 * b)"
proof -
  have ab: "a * b \<le> a" using assms by (simp add: mult_left_le)
  have aa: "a * a \<le> a" using assms by (simp add: mult_left_le)
  have bb: "b * b \<le> b" using assms by (simp add: mult_left_le)
  have ab2: "a * b \<le> b" using assms by (simp add: mult_left_le_one_le)
  define p q r where "p = a * a" and "q = a * b" and "r = b * b"
  have "p \<le> a" "q \<le> a" "r \<le> b" using aa ab bb by (simp_all add: p_def q_def r_def)
  then have "0 \<le> 3 * (a + b) - 2 * (p + q + r)" using assms by argo
  then have "0 \<le> 3 * (a + b) - 2 * (a * a + a * b + b * b)"
    by (simp only: p_def q_def r_def)
  then have "0 \<le> (b - a) * (3 * (a + b) - 2 * (a * a + a * b + b * b))"
    using assms by simp
  also have "\<dots> = b * b * (3 - 2 * b) - a * a * (3 - 2 * a)" by (simp add: algebra_simps)
  finally show ?thesis by simp
qed

lemma smoothstep_mono:
  assumes "lo < hi" "x \<le> y"
  shows "smoothstep lo hi x \<le> smoothstep lo hi y"
proof -
  have "(x - lo) / (hi - lo) \<le> (y - lo) / (hi - lo)"
    using assms by (simp add: divide_right_mono)
  then have "clampf ((x - lo) / (hi - lo)) 0 1 \<le> clampf ((y - lo) / (hi - lo)) 0 1"
    by (simp add: clampf_def min_def max_def)
  moreover have "0 \<le> clampf ((x - lo) / (hi - lo)) 0 1"
    and "clampf ((y - lo) / (hi - lo)) 0 1 \<le> 1"
    by (simp_all add: clampf_def)
  ultimately show ?thesis
    unfolding smoothstep_def Let_def by (intro hermite_mono)
qed

lemma blackbody_mono:
  assumes "0 \<le> s" "s \<le> t" "t \<le> 1"
  shows "vec3_le (blackbody s) (blackbody t)"
proof -
  have cs: "clampf s 0 1 = s" and ct: "clampf t 0 1 = t"
    using assms by (simp_all add: clampf_def)
  have r: "min (s * 3) 1 + max 0 (s - 0.5) \<le> min (t * 3) 1 + max 0 (t - 0.5)"
    using assms by (simp add: min_def max_def)
  have g: "min (s * 1.5) 1 * smoothstep 0.1 0.5 s \<le> min (t * 1.5) 1 * smoothstep 0.1 0.5 t"
    using assms smoothstep_range [of "0.1" "0.5" s] smoothstep_mono [of "0.1" "0.5" s t]
    by (intro mult_mono) (simp_all add: min_def)
  have b0: "min (s * 0.5) 1 * smoothstep 0.4 0.8 s \<le> min (t * 0.5) 1 * smoothstep 0.4 0.8 t"
    using assms smoothstep_range [of "0.4" "0.8" s] smoothstep_mono [of "0.4" "0.8" s t]
    by (intro mult_mono) (simp_all add: min_def)
  have b1: "max 0 (s - 0.9) \<le> max 0 (t - 0.9)" using assms by (simp add: max_def)
  have b: "min (s * 0.5) 1 * smoothstep 0.4 0.8 s + max 0 (s - 0.9)
           \<le> min (t * 0.5) 1 * smoothstep 0.4 0.8 t + max 0 (t - 0.9)"
    using b0 b1 by (rule add_mono)
  show ?thesis
    unfolding vec3_le_def blackbody_def Let_def cs ct vec3.sel
    using r g b by (intro conjI)
qed

lemma blackbody_red_ge_blue: "vz (blackbody temp) \<le> vx (blackbody temp)"
proof -
  define t where "t = clampf temp 0 1"
  have t: "0 \<le> t" "t \<le> 1" by (simp_all add: t_def clampf_def)
  have s: "0 \<le> smoothstep 0.4 0.8 t" "smoothstep 0.4 0.8 t \<le> 1"
    using smoothstep_range [of "0.4" "0.8" t] by simp_all
  have m: "min (t * 0.5) 1 = t * 0.5" using t by (simp add: min_def)
  have "t * 0.5 * smoothstep 0.4 0.8 t \<le> t * 0.5 * 1"
    using t s by (intro mult_left_mono) simp_all
  then have b: "min (t * 0.5) 1 * smoothstep 0.4 0.8 t \<le> t * 0.5"
    unfolding m by simp
  have r: "t * 0.5 \<le> min (t * 3) 1" using t by (simp add: min_def)
  have x: "max 0 (t - 0.9) \<le> max 0 (t - 0.5)" by (simp add: max_def)
  have "min (t * 0.5) 1 * smoothstep 0.4 0.8 t + max 0 (t - 0.9)
        \<le> min (t * 3) 1 + max 0 (t - 0.5)"
    using b r x by (intro add_mono) simp_all
  then show ?thesis
    unfolding blackbody_def Let_def t_def [symmetric] vec3.sel .
qed

text \<open>
  C8 at the hot end: \<open>blackbody 1\<close> is \<open>(1.5, 1.0, 0.6)\<close>; blue is its weakest channel and red its
  strongest, and at no temperature does the blue channel exceed the red one, whereas the
  ramp is documented as ending white and then blueish.
\<close>

theorem blackbody_hottest_not_blue:
  "blackbody 1 = Vec3 1.5 1 0.6
   \<and> vz (blackbody 1) < vy (blackbody 1) \<and> vy (blackbody 1) < vx (blackbody 1)
   \<and> vz (blackbody temp) \<le> vx (blackbody temp)"
proof -
  have e: "blackbody 1 = Vec3 1.5 1 0.6"
    by (simp add: blackbody_def Let_def clampf_def smoothstep_one)
  have o: "vz (blackbody 1) < vy (blackbody 1) \<and> vy (blackbody 1) < vx (blackbody 1)"
    unfolding e by simp
  show ?thesis using e o blackbody_red_ge_blue [of temp] by blast
qed

end
